theory Spec2Isabelle
  imports Complex_Main "HOL-Library.AList"
begin

section \<open>Text, characters and Python's string built-ins\<close>

text \<open>
  The source is \<^verbatim>\<open>app.py\<close>. A Python \<^verbatim>\<open>str\<close> is a sequence of code points; here
  a text is a \<open>string\<close> whose characters are the code points below 256 (Latin-1), which
  holds every character the source names: the degree signs U+00BA and U+00B0 and the
  letter U+00C3 of the first sentinel. \<^verbatim>\<open>None\<close> and NaN, for which \<^verbatim>\<open>pd.isna\<close> is true,
  are \<open>None\<close> of \<open>string option\<close>.
\<close>

definition ordm :: char where
  "ordm = CHR 0xBA"

definition deg :: char where
  "deg = CHR 0xB0"

definition is_digit :: "char \<Rightarrow> bool" where
  \<comment> \<open>\<^verbatim>\<open>\d\<close>: the decimal digits; below 256 these are 0 to 9\<close>
  "is_digit c = (c \<in> set ''0123456789'')"

definition is_space :: "char \<Rightarrow> bool" where
  \<comment> \<open>\<^verbatim>\<open>\s\<close> and the characters \<^verbatim>\<open>str.strip()\<close> removes: 9 to 13, 28 to 32, 133, 160\<close>
  "is_space c = (c \<in> {CHR 0x09, CHR 0x0A, CHR 0x0B, CHR 0x0C, CHR 0x0D,
                       CHR 0x1C, CHR 0x1D, CHR 0x1E, CHR 0x1F, CHR 0x20,
                       CHR 0x85, CHR 0xA0})"

definition py_strip :: "string \<Rightarrow> string" where
  "py_strip s = rev (dropWhile is_space (rev (dropWhile is_space s)))"

definition upper_char :: "char \<Rightarrow> nat list" where
  \<comment> \<open>\<^verbatim>\<open>str.upper()\<close> of one character, as code points: three characters below 256
      have an upper case that is longer or lies above 255\<close>
  "upper_char c =
     (let n = (of_char c :: nat) in
      if 97 \<le> n \<and> n \<le> 122 then [n - 32]
      else if n = 181 then [924]
      else if n = 223 then [83, 83]
      else if n = 255 then [376]
      else if 224 \<le> n \<and> n \<le> 254 \<and> n \<noteq> 247 then [n - 32]
      else [n])"

definition py_upper :: "string \<Rightarrow> nat list" where
  "py_upper s = concat (map upper_char s)"

definition codepoints :: "string \<Rightarrow> nat list" where
  "codepoints s = map of_char s"

definition replace_comma :: "string \<Rightarrow> string" where
  \<comment> \<open>\<^verbatim>\<open>s.replace(',', '.')\<close>\<close>
  "replace_comma s = map (\<lambda>c. if c = CHR '','' then CHR ''.'' else c) s"

datatype error = ValueError | KeyError

definition digit_val :: "char \<Rightarrow> nat" where
  "digit_val c = of_char c - 48"

definition py_int :: "string \<Rightarrow> nat" where
  \<comment> \<open>\<^verbatim>\<open>int(s)\<close> on a string of decimal digits, which is all the pattern captures\<close>
  "py_int s = foldl (\<lambda>a c. 10 * a + digit_val c) 0 s"

definition py_float :: "string \<Rightarrow> error + rat" where
  \<comment> \<open>\<^verbatim>\<open>float(s)\<close> on a string of digits and dots, which is all that is left of a
      captured seconds token after the replacement: digits with at most one dot and at
      least one digit convert, anything else raises ValueError. The value is the exact
      decimal; the rounding to a double is not modelled.\<close>
  "py_float s =
     (let ip = takeWhile is_digit s; r = dropWhile is_digit s in
      case r of
        [] \<Rightarrow> if ip = [] then Inl ValueError else Inr (of_nat (py_int ip))
      | c # fp \<Rightarrow>
          if c = CHR ''.'' \<and> list_all is_digit fp \<and> (ip \<noteq> [] \<or> fp \<noteq> [])
          then Inr (of_nat (py_int ip) + of_nat (py_int fp) / 10 ^ length fp)
          else Inl ValueError)"

section \<open>The pattern and \<^verbatim>\<open>re.findall\<close>\<close>

text \<open>
  The pattern of \<^verbatim>\<open>extrair_coordenadas\<close> is a sequence of character classes, each with
  a greedy repetition, eight of them capturing. An item holds the class, the least and
  the greatest number of repetitions (\<open>None\<close>: unbounded) and whether it is a group.
\<close>

datatype item = Rep (cls: "char \<Rightarrow> bool") (lo: nat) (hi: "nat option") (grp: bool)

definition is_ordinal :: "char \<Rightarrow> bool" where
  "is_ordinal c = (c = ordm \<or> c = deg)"

definition is_seg :: "char \<Rightarrow> bool" where
  "is_seg c = (is_digit c \<or> c = CHR '','' \<or> c = CHR ''.'')"

definition is_sep :: "char \<Rightarrow> bool" where
  "is_sep c = (is_space c \<or> c \<in> set '',;eE'')"

definition padrao :: "item list" where
  "padrao =
    [Rep is_digit 1 (Some 3) True,
     Rep is_ordinal 1 (Some 1) False,
     Rep is_digit 1 (Some 2) True,
     Rep (\<lambda>c. c = CHR 0x27) 1 (Some 1) False,
     Rep is_seg 1 None True,
     Rep (\<lambda>c. c = CHR 0x22) 0 (Some 1) False,
     Rep is_space 0 None False,
     Rep (\<lambda>c. c \<in> set ''NS'') 1 (Some 1) True,
     Rep is_sep 0 None False,
     Rep is_digit 1 (Some 3) True,
     Rep is_ordinal 1 (Some 1) False,
     Rep is_digit 1 (Some 2) True,
     Rep (\<lambda>c. c = CHR 0x27) 1 (Some 1) False,
     Rep is_seg 1 None True,
     Rep (\<lambda>c. c = CHR 0x22) 0 (Some 1) False,
     Rep is_space 0 None False,
     Rep (\<lambda>c. c \<in> set ''WO'') 1 (Some 1) True]"

definition counts :: "item \<Rightarrow> string \<Rightarrow> nat list" where
  \<comment> \<open>the repetition counts a greedy item tries at the head of \<open>s\<close>, longest first\<close>
  "counts it s =
     (let k = length (takeWhile (cls it) s);
          m = (case hi it of None \<Rightarrow> k | Some h \<Rightarrow> min h k)
      in rev [lo it ..< Suc m])"

fun first_some :: "(nat \<Rightarrow> 'a option) \<Rightarrow> nat list \<Rightarrow> 'a option" where
  "first_some f [] = None"
| "first_some f (n # ns) = (case f n of Some r \<Rightarrow> Some r | None \<Rightarrow> first_some f ns)"

fun match_items :: "item list \<Rightarrow> string \<Rightarrow> (string list \<times> string) option" where
  "match_items [] s = Some ([], s)"
| "match_items (it # its) s =
     first_some
       (\<lambda>n. case match_items its (drop n s) of
               None \<Rightarrow> None
             | Some (caps, rest) \<Rightarrow> Some (if grp it then take n s # caps else caps, rest))
       (counts it s)"

text \<open>
  A match consumes at least the least repetitions of every item, twelve characters for
  \<open>padrao\<close>; so the scan below, which resumes where a match ended, terminates.
\<close>

lemma first_some_SomeD:
  "first_some f ns = Some r \<Longrightarrow> \<exists>n\<in>set ns. f n = Some r"
  by (induction ns) (auto split: option.splits)

lemma counts_bounds:
  assumes "n \<in> set (counts it s)"
  shows "lo it \<le> n \<and> n \<le> length s"
proof -
  have "length (takeWhile (cls it) s) \<le> length s"
    by (rule length_takeWhile_le)
  with assms show ?thesis
    by (auto simp: counts_def Let_def split: option.splits)
qed

lemma match_items_consumes:
  "match_items its s = Some (caps, rest) \<Longrightarrow> length rest + sum_list (map lo its) \<le> length s"
proof (induction its arbitrary: s caps rest)
  case Nil
  then show ?case by simp
next
  case (Cons it its)
  from Cons.prems obtain n where n: "n \<in> set (counts it s)"
    and m: "(case match_items its (drop n s) of None \<Rightarrow> None
             | Some (caps, rest) \<Rightarrow> Some (if grp it then take n s # caps else caps, rest))
            = Some (caps, rest)"
    by (auto dest!: first_some_SomeD)
  from m obtain caps' where "match_items its (drop n s) = Some (caps', rest)"
    by (auto split: option.splits)
  from Cons.IH [OF this] have "length rest + sum_list (map lo its) \<le> length s - n"
    by simp
  with counts_bounds [OF n] show ?case
    by (simp del: sum_list.Cons add: sum_list.Cons) arith
qed

lemma padrao_lo: "sum_list (map lo padrao) = 12"
  by (simp add: padrao_def)

function findall :: "string \<Rightarrow> string list list" where
  \<comment> \<open>\<^verbatim>\<open>re.findall(padrao, texto)\<close>: the leftmost match from the current position, its
      groups, then on from where it ended; a position with no match is skipped\<close>
  "findall s =
     (case match_items padrao s of
        Some (caps, rest) \<Rightarrow> caps # findall rest
      | None \<Rightarrow> (case s of [] \<Rightarrow> [] | c # cs \<Rightarrow> findall cs))"
  by pat_completeness auto
termination
proof (relation "measure length")
  show "wf (measure length)" by simp
next
  fix s x2 x y
  assume "match_items padrao s = Some x2" "(x, y) = x2"
  then have "match_items padrao s = Some (x, y)" by simp
  from match_items_consumes [OF this] show "(y, s) \<in> measure length"
    by (simp add: padrao_lo)
next
  fix s :: string and c cs
  assume "s = c # cs"
  then show "(cs, s) \<in> measure length" by simp
qed

declare findall.simps [simp del]

declare match_items.simps [simp del]

section \<open>\<^verbatim>\<open>extrair_coordenadas\<close>\<close>

record ponto =
  LATITUDE :: rat
  LONGITUDE :: rat
  LATITUDE_DMS :: string
  LONGITUDE_DMS :: string

definition sentinelas :: "nat list list" where
  "sentinelas =
     [codepoints (''N'' @ [CHR 0xC3] @ ''O CONSTA''), codepoints ''NAO CONSTA'',
      codepoints ''NOT INFORMED'', codepoints []]"

definition dms :: "string \<Rightarrow> string \<Rightarrow> string \<Rightarrow> string \<Rightarrow> string" where
  \<comment> \<open>the f-string of \<^verbatim>\<open>lat_dms\<close> and \<^verbatim>\<open>lon_dms\<close>\<close>
  "dms graus mins seg hem = graus @ [ordm] @ mins @ [CHR 0x27] @ seg @ [CHR 0x22] @ hem"

fun converte :: "string list \<Rightarrow> error + ponto" where
  \<comment> \<open>the body of the loop over \<^verbatim>\<open>matches\<close>; unpacking a tuple of another length
      raises ValueError, which no match of \<open>padrao\<close> does\<close>
  "converte [graus_lat, min_lat, seg_lat, hem_lat, graus_lon, min_lon, seg_lon, hem_lon] =
     (let seg_lat = replace_comma seg_lat;
          seg_lon = replace_comma seg_lon
      in (case py_float seg_lat of
            Inl e \<Rightarrow> Inl e
          | Inr f_lat \<Rightarrow>
              (let lat = of_nat (py_int graus_lat) + of_nat (py_int min_lat) / 60
                           + f_lat / 3600;
                   lat = (if py_upper hem_lat = codepoints ''S'' then - lat else lat)
               in (case py_float seg_lon of
                     Inl e \<Rightarrow> Inl e
                   | Inr f_lon \<Rightarrow>
                       (let lon = of_nat (py_int graus_lon) + of_nat (py_int min_lon) / 60
                                    + f_lon / 3600;
                            lon = (if py_upper hem_lon = codepoints ''W'' then - lon else lon)
                        in Inr \<lparr>LATITUDE = lat, LONGITUDE = lon,
                                LATITUDE_DMS = dms graus_lat min_lat seg_lat hem_lat,
                                LONGITUDE_DMS = dms graus_lon min_lon seg_lon hem_lon\<rparr>)))))"
| "converte _ = Inl ValueError"

fun percorre :: "string list list \<Rightarrow> ponto list \<Rightarrow> error + ponto list" where
  \<comment> \<open>\<^verbatim>\<open>for match in matches\<close>, with \<^verbatim>\<open>resultados\<close> as accumulator\<close>
  "percorre [] resultados = Inr resultados"
| "percorre (m # ms) resultados =
     (case converte m of
        Inl e \<Rightarrow> Inl e
      | Inr p \<Rightarrow> percorre ms (resultados @ [p]))"

definition extrair_coordenadas :: "string option \<Rightarrow> error + ponto list" where
  "extrair_coordenadas texto =
     (case texto of
        None \<Rightarrow> Inr []
      | Some t \<Rightarrow>
          if py_upper (py_strip t) \<in> set sentinelas then Inr []
          else percorre (findall t) [])"

section \<open>\<^verbatim>\<open>expandir_dataframe\<close>\<close>

text \<open>
  A cell of the table holds a text, a number or NaN. \<^verbatim>\<open>str\<close> of a text is the text and
  of NaN is \<^verbatim>\<open>nan\<close>; how Python prints a number is left as the parameter \<open>num_str\<close>.
  A frame has its column names and its rows, each row the cells in column order. The
  labels are meant to be distinct, as \<^verbatim>\<open>read_excel\<close> makes them: \<^verbatim>\<open>row[label]\<close> is then the
  cell under the label, and it is the lookup of the model. The
  dictionaries of \<^verbatim>\<open>linhas_expandidas\<close> are association lists in insertion order; the
  frame that \<^verbatim>\<open>pd.DataFrame\<close> builds from them has these dictionaries as its rows, and
  the model returns the list.
\<close>

datatype cell = CStr string | CNum rat | CNaN

fun py_str :: "(rat \<Rightarrow> string) \<Rightarrow> cell \<Rightarrow> string" where
  "py_str num_str (CStr s) = s"
| "py_str num_str (CNum r) = num_str r"
| "py_str num_str CNaN = ''nan''"

record dataframe =
  columns :: "string list"
  linhas :: "cell list list"

type_synonym dict = "(string \<times> cell) list"

definition to_dict :: "string list \<Rightarrow> cell list \<Rightarrow> dict" where
  \<comment> \<open>\<^verbatim>\<open>row.to_dict()\<close>: the labels of the row with their values\<close>
  "to_dict cols r = foldl (\<lambda>d (k, v). AList.update k v d) [] (zip cols r)"

function dec_str :: "nat \<Rightarrow> string" where
  "dec_str n = (if n < 10 then [''0123456789'' ! n]
                else dec_str (n div 10) @ [''0123456789'' ! (n mod 10)])"
  by pat_completeness auto
termination
  by (relation "measure id") auto

declare dec_str.simps [simp del]

definition fmt_02d :: "nat \<Rightarrow> string" where
  \<comment> \<open>the format \<^verbatim>\<open>{i:02d}\<close>: the decimal digits, filled with zeros to two columns\<close>
  "fmt_02d i = (let ds = dec_str i in replicate (2 - length ds) CHR ''0'' @ ds)"

definition nova_linha :: "string list \<Rightarrow> cell list \<Rightarrow> nat \<Rightarrow> ponto \<Rightarrow> dict" where
  "nova_linha cols r i p =
     AList.update ''LONGITUDE_DMS'' (CStr (LONGITUDE_DMS p))
       (AList.update ''LATITUDE_DMS'' (CStr (LATITUDE_DMS p))
         (AList.update ''LONGITUDE'' (CNum (LONGITUDE p))
           (AList.update ''LATITUDE'' (CNum (LATITUDE p))
             (AList.update ''PONTO'' (CStr (''P'' @ fmt_02d i)) (to_dict cols r)))))"

definition novas_linhas :: "string list \<Rightarrow> cell list \<Rightarrow> ponto list \<Rightarrow> dict list" where
  \<comment> \<open>\<^verbatim>\<open>for i, ponto in enumerate(pontos, 1)\<close>\<close>
  "novas_linhas cols r pontos =
     map (\<lambda>(i, p). nova_linha cols r i p) (zip [1 ..< Suc (length pontos)] pontos)"

fun expande :: "(rat \<Rightarrow> string) \<Rightarrow> string list \<Rightarrow> string \<Rightarrow> cell list list \<Rightarrow> dict list
    \<Rightarrow> error + dict list" where
  \<comment> \<open>\<^verbatim>\<open>for idx, row in df.iterrows()\<close>, with \<^verbatim>\<open>linhas_expandidas\<close> as accumulator;
      \<^verbatim>\<open>row[coluna_coordenadas]\<close> raises KeyError for a label the row does not have\<close>
  "expande num_str cols coluna [] linhas_expandidas = Inr linhas_expandidas"
| "expande num_str cols coluna (r # rs) linhas_expandidas =
     (case map_of (zip cols r) coluna of
        None \<Rightarrow> Inl KeyError
      | Some c \<Rightarrow>
          (case extrair_coordenadas (Some (py_str num_str c)) of
             Inl e \<Rightarrow> Inl e
           | Inr pontos \<Rightarrow>
               expande num_str cols coluna rs (linhas_expandidas @ novas_linhas cols r pontos)))"

definition expandir_dataframe :: "(rat \<Rightarrow> string) \<Rightarrow> dataframe \<Rightarrow> string \<Rightarrow> error + dict list" where
  "expandir_dataframe num_str df coluna_coordenadas =
     expande num_str (columns df) coluna_coordenadas (linhas df) []"

section \<open>The grammar of a well-formed pair\<close>

text \<open>
  The text of one pair as the grammar of the pattern reads it: the tokens of the latitude,
  the separator between the two halves, the tokens of the longitude. \<open>par_gramatica\<close> says
  that every token lies in the class and within the repetitions of its item of \<open>padrao\<close>,
  and \<open>grupos\<close> are the eight substrings the groups then capture.
\<close>

record par =
  lat_graus :: string
  lat_simbolo :: char
  lat_min :: string
  lat_seg :: string
  lat_aspas :: string
  lat_esp :: string
  lat_hem :: char
  separador :: string
  lon_graus :: string
  lon_simbolo :: char
  lon_min :: string
  lon_seg :: string
  lon_aspas :: string
  lon_esp :: string
  lon_hem :: char

definition texto_par :: "par \<Rightarrow> string" where
  "texto_par p =
     lat_graus p @ [lat_simbolo p] @ lat_min p @ [CHR 0x27] @ lat_seg p @ lat_aspas p
       @ lat_esp p @ [lat_hem p] @ separador p
       @ lon_graus p @ [lon_simbolo p] @ lon_min p @ [CHR 0x27] @ lon_seg p @ lon_aspas p
       @ lon_esp p @ [lon_hem p]"

definition digitos :: "nat \<Rightarrow> string \<Rightarrow> bool" where
  "digitos n s = (list_all is_digit s \<and> 1 \<le> length s \<and> length s \<le> n)"

definition par_gramatica :: "par \<Rightarrow> bool" where
  "par_gramatica p =
     (digitos 3 (lat_graus p) \<and> is_ordinal (lat_simbolo p) \<and> digitos 2 (lat_min p)
      \<and> list_all is_seg (lat_seg p) \<and> lat_seg p \<noteq> []
      \<and> lat_aspas p \<in> {[], [CHR 0x22]} \<and> list_all is_space (lat_esp p)
      \<and> lat_hem p \<in> set ''NS'' \<and> list_all is_sep (separador p)
      \<and> digitos 3 (lon_graus p) \<and> is_ordinal (lon_simbolo p) \<and> digitos 2 (lon_min p)
      \<and> list_all is_seg (lon_seg p) \<and> lon_seg p \<noteq> []
      \<and> lon_aspas p \<in> {[], [CHR 0x22]} \<and> list_all is_space (lon_esp p)
      \<and> lon_hem p \<in> set ''WO'')"

definition grupos :: "par \<Rightarrow> string list" where
  "grupos p = [lat_graus p, lat_min p, lat_seg p, [lat_hem p],
               lon_graus p, lon_min p, lon_seg p, [lon_hem p]]"

text \<open>
  A seconds token is well formed when it is a digit sequence with at most one separator
  (comma or dot) and at least one digit; \<open>decimal\<close> is the number it denotes, all its
  digits read as one integer and scaled by the digits after the separator.
\<close>

definition seg_ok :: "string \<Rightarrow> bool" where
  "seg_ok s = (list_all is_seg s \<and> length (filter (\<lambda>c. \<not> is_digit c) s) \<le> 1
               \<and> (\<exists>c\<in>set s. is_digit c))"

definition decimal :: "string \<Rightarrow> rat" where
  "decimal s = of_nat (py_int (filter is_digit s))
                 / 10 ^ length (filter is_digit (dropWhile is_digit s))"

text \<open>\<open>stops P s\<close>: the text \<open>s\<close> does not begin with a character of the class \<open>P\<close>.\<close>

definition stops :: "(char \<Rightarrow> bool) \<Rightarrow> string \<Rightarrow> bool" where
  "stops P s = (case s of [] \<Rightarrow> True | c # _ \<Rightarrow> \<not> P c)"

text \<open>
  The example of the specification, with the longitude written with the degree sign U+00B0,
  as a pair of the grammar, as a text, and the point it denotes; the same text with the
  hemisphere letters in lower case, with O for the west, and a pair whose seconds have two
  separators.
\<close>

definition exemplo :: par where
  "exemplo = \<lparr>lat_graus = ''3'', lat_simbolo = CHR 0xBA, lat_min = ''03'',
     lat_seg = ''52,9838'', lat_aspas = [CHR 0x22], lat_esp = [], lat_hem = CHR ''S'',
     separador = '' '', lon_graus = ''59'', lon_simbolo = CHR 0xB0, lon_min = ''54'',
     lon_seg = ''46,6013'', lon_aspas = [CHR 0x22], lon_esp = [], lon_hem = CHR ''W''\<rparr>"

definition texto_exemplo :: string where
  "texto_exemplo = ''3'' @ [CHR 0xBA] @ ''03'' @ [CHR 0x27] @ ''52,9838'' @ [CHR 0x22]
      @ ''S 59'' @ [CHR 0xB0] @ ''54'' @ [CHR 0x27] @ ''46,6013'' @ [CHR 0x22] @ ''W''"

definition ponto_exemplo :: ponto where
  "ponto_exemplo =
     \<lparr>LATITUDE = - (55164919 / 18000000), LONGITUDE = - (2156866013 / 36000000),
      LATITUDE_DMS = ''3'' @ [CHR 0xBA] @ ''03'' @ [CHR 0x27] @ ''52.9838'' @ [CHR 0x22] @ ''S'',
      LONGITUDE_DMS = ''59'' @ [CHR 0xBA] @ ''54'' @ [CHR 0x27] @ ''46.6013'' @ [CHR 0x22] @ ''W''\<rparr>"

definition texto_minusculas :: string where
  "texto_minusculas = ''3'' @ [CHR 0xBA] @ ''03'' @ [CHR 0x27] @ ''52,9838'' @ [CHR 0x22]
      @ ''s 59'' @ [CHR 0xB0] @ ''54'' @ [CHR 0x27] @ ''46,6013'' @ [CHR 0x22] @ ''w''"

definition texto_tres_partes :: string where
  "texto_tres_partes = ''1'' @ [CHR 0xBA] @ ''1'' @ [CHR 0x27] @ ''1.2.3'' @ [CHR 0x22]
      @ ''N 1'' @ [CHR 0xBA] @ ''1'' @ [CHR 0x27] @ ''1'' @ [CHR 0x22] @ ''W''"

definition par_tres_partes :: par where
  "par_tres_partes = \<lparr>lat_graus = ''1'', lat_simbolo = CHR 0xBA, lat_min = ''1'',
     lat_seg = ''1.2.3'', lat_aspas = [CHR 0x22], lat_esp = [], lat_hem = CHR ''N'',
     separador = '' '', lon_graus = ''1'', lon_simbolo = CHR 0xBA, lon_min = ''1'',
     lon_seg = ''1'', lon_aspas = [CHR 0x22], lon_esp = [], lon_hem = CHR ''W''\<rparr>"

definition texto_oeste :: string where
  "texto_oeste = ''3'' @ [CHR 0xBA] @ ''03'' @ [CHR 0x27] @ ''52,9838'' @ [CHR 0x22]
      @ ''S 59'' @ [CHR 0xB0] @ ''54'' @ [CHR 0x27] @ ''46,6013'' @ [CHR 0x22] @ ''O''"

text \<open>
  The points of a source row: what \<open>extrair_coordenadas\<close> returns for the text of its cell
  under the coordinate column (none where the lookup or the parse raises). The five keys
  that \<open>nova_linha\<close> sets.
\<close>

definition pontos_linha :: "(rat \<Rightarrow> string) \<Rightarrow> string list \<Rightarrow> string \<Rightarrow> cell list \<Rightarrow> ponto list" where
  "pontos_linha num_str cols coluna r =
     (case map_of (zip cols r) coluna of
        None \<Rightarrow> []
      | Some c \<Rightarrow>
          (case extrair_coordenadas (Some (py_str num_str c)) of
             Inl e \<Rightarrow> []
           | Inr ps \<Rightarrow> ps))"

definition reservadas :: "string list" where
  "reservadas = [''PONTO'', ''LATITUDE'', ''LONGITUDE'', ''LATITUDE_DMS'', ''LONGITUDE_DMS'']"

text \<open>
  Example tables: the row-expansion example of the specification (two points, none, one),
  a table that already has a column PONTO, and a table without rows. \<open>num_str_exemplo\<close>
  stands for the printing of numbers, which these examples never need.
\<close>

definition num_str_exemplo :: "rat \<Rightarrow> string" where
  "num_str_exemplo r = ''0''"

definition texto_dois :: string where
  "texto_dois = texto_exemplo @ ''; '' @ texto_exemplo"

definition quadro_exemplo :: dataframe where
  "quadro_exemplo =
     \<lparr>columns = [''id'', ''coord''],
      linhas = [[CNum 1, CStr texto_dois],
                [CNum 2, CNaN],
                [CNum 3, CStr texto_exemplo]]\<rparr>"

definition quadro_ponto :: dataframe where
  "quadro_ponto =
     \<lparr>columns = [''PONTO'', ''coord''], linhas = [[CStr ''A1'', CStr texto_exemplo]]\<rparr>"

definition quadro_vazio :: dataframe where
  "quadro_vazio = \<lparr>columns = [''id'', ''coord''], linhas = []\<rparr>"

section \<open>The matcher on a well-formed pair\<close>

lemma stops_Nil: "stops P []"
  by (simp add: stops_def)

lemma stops_Cons: "stops P (c # cs) = (\<not> P c)"
  by (simp add: stops_def)

lemma stops_append: "list_all (\<lambda>c. \<not> P c) xs \<Longrightarrow> stops P ys \<Longrightarrow> stops P (xs @ ys)"
  by (cases xs) (simp_all add: stops_def)

lemma takeWhile_tok:
  "list_all P tok \<Longrightarrow> stops P rest \<Longrightarrow> takeWhile P (tok @ rest) = tok"
  by (induction tok) (auto simp: stops_def split: list.splits)

lemma first_some_hit: "f n = Some r \<Longrightarrow> first_some f (n # ns) = Some r"
  by simp

lemma counts_hd:
  assumes "list_all P tok" "l \<le> length tok"
    and "h = Some (length tok) \<or> (h = None \<or> (\<exists>k. h = Some k \<and> length tok \<le> k)) \<and> stops P rest"
  shows "\<exists>ns. counts (Rep P l h g) (tok @ rest) = length tok # ns"
proof -
  let ?k = "length (takeWhile P (tok @ rest))"
  have ge: "length tok \<le> ?k"
  proof -
    have "takeWhile P (tok @ rest) = tok @ takeWhile P rest"
      using assms(1) by (simp add: takeWhile_append2 list_all_iff)
    then show ?thesis by simp
  qed
  have m: "(case h of None \<Rightarrow> ?k | Some h' \<Rightarrow> min h' ?k) = length tok"
    using assms(3)
  proof
    assume "h = Some (length tok)"
    with ge show ?thesis by simp
  next
    assume a: "(h = None \<or> (\<exists>k. h = Some k \<and> length tok \<le> k)) \<and> stops P rest"
    then have "?k = length tok"
      using takeWhile_tok [OF assms(1)] by simp
    with a show ?thesis by auto
  qed
  have r: "rev [l ..< Suc (length tok)] = length tok # rev [l ..< length tok]"
    using assms(2) by simp
  have "counts (Rep P l h g) (tok @ rest) = rev [l ..< Suc (length tok)]"
    unfolding counts_def Let_def item.sel m ..
  with r show ?thesis by simp
qed

lemma match_step:
  assumes "list_all P tok" "l \<le> length tok"
    and "h = Some (length tok) \<or> (h = None \<or> (\<exists>k. h = Some k \<and> length tok \<le> k)) \<and> stops P rest"
    and "match_items its rest = Some (caps, r)"
  shows "match_items (Rep P l h g # its) (tok @ rest) = Some (if g then tok # caps else caps, r)"
proof -
  from counts_hd [OF assms(1-3)] obtain ns
    where "counts (Rep P l h g) (tok @ rest) = length tok # ns" by blast
  with assms(4) show ?thesis by (simp add: match_items.simps(2))
qed

lemma match_one:
  assumes "P c" "match_items its rest = Some (caps, r)"
  shows "match_items (Rep P 1 (Some 1) g # its) (c # rest) = Some (if g then [c] # caps else caps, r)"
  using match_step [of P "[c]" 1 "Some 1" rest its caps r g] assms by simp

lemma match_tail:
  assumes sg: "list_all is_seg sg" "sg \<noteq> []"
    and q: "q \<in> {[], [CHR 0x22]}" and w: "list_all is_space w" and h: "H hm"
    and nsp: "\<not> is_space hm" "hm \<noteq> CHR 0x22" "\<not> is_seg hm"
    and rest: "match_items its rest = Some (caps, r)"
  shows "match_items
           (Rep is_seg 1 None True # Rep (\<lambda>c. c = CHR 0x22) 0 (Some 1) False
              # Rep is_space 0 None False # Rep H 1 (Some 1) True # its)
           (sg @ q @ w @ hm # rest)
         = Some (sg # [hm] # caps, r)"
proof -
  let ?Q = "\<lambda>c. c = CHR 0x22"
  let ?i4 = "Rep H 1 (Some 1) True # its"
  let ?i3 = "Rep is_space 0 None False # ?i4"
  let ?i2 = "Rep ?Q 0 (Some 1) False # ?i3"
  have m4: "match_items ?i4 (hm # rest) = Some ([hm] # caps, r)"
    using match_one [where P = H and c = hm and g = True, OF h rest] by simp
  have m3: "match_items ?i3 (w @ hm # rest) = Some ([hm] # caps, r)"
    using match_step [where P = is_space and tok = w and l = 0 and h = None and g = False
        and rest = "hm # rest", OF w _ _ m4] nsp
    by (simp add: stops_Cons)
  have sq: "stops ?Q (w @ hm # rest)"
    using w nsp by (cases w) (auto simp: stops_def is_space_def)
  have m2: "match_items ?i2 (q @ w @ hm # rest) = Some ([hm] # caps, r)"
  proof (cases "q = []")
    case True
    then show ?thesis
      using match_step [where P = ?Q and tok = "[]" and l = 0 and h = "Some 1" and g = False
          and rest = "w @ hm # rest", OF _ _ _ m3] sq
      by simp
  next
    case False
    with q have "q = [CHR 0x22]" by simp
    then show ?thesis
      using match_step [where P = ?Q and tok = "[CHR 0x22]" and l = 0 and h = "Some 1"
          and g = False and rest = "w @ hm # rest", OF _ _ _ m3]
      by simp
  qed
  have ss: "stops is_seg (q @ w @ hm # rest)"
    using q w nsp by (cases w) (auto simp: stops_def is_space_def is_seg_def is_digit_def)
  have "1 \<le> length sg" using sg(2) by (cases sg) simp_all
  then show ?thesis
    using match_step [where P = is_seg and tok = sg and l = 1 and h = None and g = True
        and rest = "q @ w @ hm # rest", OF sg(1) _ _ m2] ss
    by simp
qed


lemma match_head:
  assumes g: "digitos 3 g" and o: "is_ordinal od" and m: "digitos 2 m"
    and rest: "match_items its rest = Some (caps, r)"
  shows "match_items
           (Rep is_digit 1 (Some 3) True # Rep is_ordinal 1 (Some 1) False
              # Rep is_digit 1 (Some 2) True # Rep (\<lambda>c. c = CHR 0x27) 1 (Some 1) False # its)
           (g @ od # m @ CHR 0x27 # rest)
         = Some (g # m # caps, r)"
proof -
  let ?A = "\<lambda>c. c = CHR 0x27"
  let ?i4 = "Rep ?A 1 (Some 1) False # its"
  let ?i3 = "Rep is_digit 1 (Some 2) True # ?i4"
  let ?i2 = "Rep is_ordinal 1 (Some 1) False # ?i3"
  have m4: "match_items ?i4 (CHR 0x27 # rest) = Some (caps, r)"
    using match_one [where P = ?A and c = "CHR 0x27" and g = False, OF _ rest] by simp
  have m3: "match_items ?i3 (m @ CHR 0x27 # rest) = Some (m # caps, r)"
    using match_step [where P = is_digit and tok = m and l = 1 and h = "Some 2" and g = True
        and rest = "CHR 0x27 # rest", OF _ _ _ m4] m
    by (simp add: digitos_def stops_Cons is_digit_def)
  have m2: "match_items ?i2 (od # m @ CHR 0x27 # rest) = Some (m # caps, r)"
    using match_one [where P = is_ordinal and c = od and g = False, OF o m3] by simp
  have "\<not> is_digit od"
    using o by (auto simp: is_ordinal_def is_digit_def ordm_def deg_def)
  then show ?thesis
    using match_step [where P = is_digit and tok = g and l = 1 and h = "Some 3" and g = True
        and rest = "od # m @ CHR 0x27 # rest", OF _ _ _ m2] g
    by (simp add: digitos_def stops_Cons)
qed

lemma match_par:
  assumes "par_gramatica p"
  shows "match_items padrao (texto_par p @ post) = Some (grupos p, post)"
proof -
  let ?W = "\<lambda>c. c \<in> set ''WO''"
  let ?N = "\<lambda>c. c \<in> set ''NS''"
  let ?A = "\<lambda>c. c = CHR 0x27"
  let ?Q = "\<lambda>c. c = CHR 0x22"
  from assms have
    g1: "digitos 3 (lat_graus p)" and o1: "is_ordinal (lat_simbolo p)" and
    m1: "digitos 2 (lat_min p)" and s1: "list_all is_seg (lat_seg p)" "lat_seg p \<noteq> []" and
    q1: "lat_aspas p \<in> {[], [CHR 0x22]}" and w1: "list_all is_space (lat_esp p)" and
    h1: "?N (lat_hem p)" and sp: "list_all is_sep (separador p)" and
    g2: "digitos 3 (lon_graus p)" and o2: "is_ordinal (lon_simbolo p)" and
    m2: "digitos 2 (lon_min p)" and s2: "list_all is_seg (lon_seg p)" "lon_seg p \<noteq> []" and
    q2: "lon_aspas p \<in> {[], [CHR 0x22]}" and w2: "list_all is_space (lon_esp p)" and
    h2: "?W (lon_hem p)"
    by (simp_all add: par_gramatica_def)
  have e: "match_items [] post = Some ([], post)" by (simp add: match_items.simps(1))
  have c2: "\<not> is_space (lon_hem p)" "lon_hem p \<noteq> CHR 0x22" "\<not> is_seg (lon_hem p)"
    using h2 by (auto simp: is_space_def is_seg_def is_digit_def)
  have c1: "\<not> is_space (lat_hem p)" "lat_hem p \<noteq> CHR 0x22" "\<not> is_seg (lat_hem p)"
    using h1 by (auto simp: is_space_def is_seg_def is_digit_def)
  note t2 = match_tail [where H = ?W, OF s2 q2 w2 h2 c2 e]
  note d2 = match_head [OF g2 o2 m2 t2]
  have "lon_graus p \<noteq> []" using g2 by (auto simp: digitos_def)
  then obtain d ds where ds: "lon_graus p = d # ds" by (cases "lon_graus p") auto
  with g2 have "is_digit d" by (simp add: digitos_def)
  then have "\<not> is_sep d" by (auto simp: is_sep_def is_space_def is_digit_def)
  then have st: "stops is_sep (lon_graus p @ lon_simbolo p # lon_min p @ CHR 0x27 # lon_seg p
      @ lon_aspas p @ lon_esp p @ lon_hem p # post)"
    by (simp add: ds stops_Cons)
  have sepm: "match_items (Rep is_sep 0 None False # Rep is_digit 1 (Some 3) True
        # Rep is_ordinal 1 (Some 1) False # Rep is_digit 1 (Some 2) True # Rep ?A 1 (Some 1) False
        # Rep is_seg 1 None True # Rep ?Q 0 (Some 1) False # Rep is_space 0 None False
        # Rep ?W 1 (Some 1) True # [])
      (separador p @ lon_graus p @ lon_simbolo p # lon_min p @ CHR 0x27 # lon_seg p
        @ lon_aspas p @ lon_esp p @ lon_hem p # post)
     = Some ([lon_graus p, lon_min p, lon_seg p, [lon_hem p]], post)"
    using match_step [where P = is_sep and tok = "separador p" and l = 0 and h = None
        and g = False, OF sp _ _ d2] st
    by simp
  note t1 = match_tail [where H = ?N, OF s1 q1 w1 h1 c1 sepm]
  note d1 = match_head [OF g1 o1 m1 t1]
  then show ?thesis
    by (simp add: padrao_def texto_par_def grupos_def)
qed

lemma match_padrao_Nil: "match_items padrao [] = None"
  unfolding padrao_def by (subst match_items.simps(2)) (simp add: counts_def)

lemma findall_Nil: "findall [] = []"
  by (subst findall.simps) (simp add: match_padrao_Nil)

lemma match_nondigit: "\<not> is_digit c \<Longrightarrow> match_items padrao (c # cs) = None"
  unfolding padrao_def by (subst match_items.simps(2)) (simp add: counts_def)

lemma findall_skip: "\<not> is_digit c \<Longrightarrow> findall (c # cs) = findall cs"
  by (subst findall.simps) (simp add: match_nondigit)

lemma findall_prefix:
  "list_all (\<lambda>c. \<not> is_digit c) pre \<Longrightarrow> findall (pre @ s) = findall s"
  by (induction pre) (simp_all add: findall_skip)

lemma findall_par:
  assumes "par_gramatica p" "list_all (\<lambda>c. \<not> is_digit c) pre"
  shows "findall (pre @ texto_par p @ post) = grupos p # findall post"
proof -
  have "findall (texto_par p @ post) = grupos p # findall post"
    by (subst findall.simps) (simp add: match_par [OF assms(1)])
  with findall_prefix [OF assms(2)] show ?thesis by simp
qed

section \<open>Conversion of the captured tokens\<close>

lemma py_int_snoc: "py_int (a @ [c]) = 10 * py_int a + digit_val c"
  by (simp add: py_int_def)

lemma py_int_append: "py_int (a @ b) = py_int a * 10 ^ length b + py_int b"
proof (induction b rule: rev_induct)
  case Nil
  then show ?case by (simp add: py_int_def)
next
  case (snoc c b)
  have "py_int (a @ b @ [c]) = 10 * py_int (a @ b) + digit_val c"
    using py_int_snoc [of "a @ b" c] by simp
  with snoc show ?case
    by (simp add: py_int_snoc algebra_simps)
qed

lemma replace_digit: "is_digit (if c = CHR '','' then CHR ''.'' else c) = is_digit c"
  by (simp add: is_digit_def)

lemma replace_digits: "list_all is_digit s \<Longrightarrow> replace_comma s = s"
  by (induction s) (auto simp: replace_comma_def is_digit_def)

lemma takeWhile_replace:
  "takeWhile is_digit (replace_comma s) = takeWhile is_digit s"
  by (induction s) (auto simp: replace_comma_def is_digit_def)

lemma dropWhile_replace:
  "dropWhile is_digit (replace_comma s) = replace_comma (dropWhile is_digit s)"
  by (induction s) (auto simp: replace_comma_def is_digit_def)

lemma rc_Nil: "replace_comma [] = []"
  by (simp add: replace_comma_def)

lemma filter_all: "filter P xs = [] \<Longrightarrow> list_all (\<lambda>x. \<not> P x) xs"
  by (induction xs) (auto split: if_splits)

lemma py_float_decimal:
  assumes "seg_ok s"
  shows "py_float (replace_comma s) = Inr (decimal s)"
proof -
  let ?ip = "takeWhile is_digit s"
  let ?r = "dropWhile is_digit s"
  have s: "s = ?ip @ ?r" by simp
  have ip: "list_all is_digit ?ip"
    by (simp add: list_all_iff) (meson set_takeWhileD)
  from assms have seg: "list_all is_seg s"
    and one: "length (filter (\<lambda>c. \<not> is_digit c) s) \<le> 1"
    and dig: "\<exists>c\<in>set s. is_digit c"
    by (simp_all add: seg_ok_def)
  show ?thesis
  proof (cases ?r)
    case Nil
    then have all: "s = ?ip" by (metis append_Nil2 takeWhile_dropWhile_id)
    then have "filter is_digit s = s"
      using ip by (metis filter_True list_all_iff)
    moreover have "s \<noteq> []" using dig by auto
    moreover have "py_float (replace_comma s) = Inr (of_nat (py_int s))"
      unfolding py_float_def Let_def takeWhile_replace dropWhile_replace Nil rc_Nil
        all [symmetric]
      using \<open>s \<noteq> []\<close> by simp
    moreover have "decimal s = of_nat (py_int s)"
      unfolding decimal_def Nil using \<open>filter is_digit s = s\<close> by simp
    ultimately show ?thesis by simp
  next
    case (Cons c fp)
    have nd: "\<not> is_digit c"
      using Cons by (metis hd_dropWhile list.distinct(1) list.sel(1))
    have "c \<in> set s" using Cons by (metis list.set_intros(1) set_dropWhileD)
    with seg have "is_seg c" by (simp add: list_all_iff)
    with nd have c: "c = CHR '','' \<or> c = CHR ''.''" by (simp add: is_seg_def)
    have "filter (\<lambda>c. \<not> is_digit c) s = filter (\<lambda>c. \<not> is_digit c) (?ip @ c # fp)"
      using s Cons by simp
    also have "\<dots> = c # filter (\<lambda>c. \<not> is_digit c) fp"
      using ip nd by (simp add: list_all_iff)
    finally have "filter (\<lambda>c. \<not> is_digit c) fp = []"
      using one by simp
    then have fp: "list_all is_digit fp"
      using filter_all [of "\<lambda>c. \<not> is_digit c" fp] by simp
    have ne: "?ip \<noteq> [] \<or> fp \<noteq> []"
    proof (rule ccontr)
      assume "\<not> (?ip \<noteq> [] \<or> fp \<noteq> [])"
      then have "s = [c]" using s Cons by simp
      with dig nd show False by simp
    qed
    have f1: "filter is_digit s = ?ip @ fp"
    proof -
      have "filter is_digit s = filter is_digit (?ip @ c # fp)" using s Cons by simp
      also have "\<dots> = ?ip @ fp"
        using ip fp nd by (simp add: list_all_iff)
      finally show ?thesis .
    qed
    have f2: "filter is_digit ?r = fp"
      using Cons fp nd by (simp add: list_all_iff)
    have rc: "replace_comma (c # fp) = CHR ''.'' # fp"
      using c replace_digits [OF fp] by (auto simp: replace_comma_def)
    have "py_float (replace_comma s)
            = Inr (of_nat (py_int ?ip) + of_nat (py_int fp) / 10 ^ length fp)"
      unfolding py_float_def Let_def takeWhile_replace dropWhile_replace Cons rc
      using fp ne by simp
    moreover have "decimal s = of_nat (py_int ?ip) + of_nat (py_int fp) / 10 ^ length fp"
      unfolding decimal_def f1 f2 py_int_append
      by (simp add: add_divide_distrib)
    ultimately show ?thesis by simp
  qed
qed

lemma digit_not_space: "is_digit c \<Longrightarrow> \<not> is_space c"
  by (auto simp: is_digit_def is_space_def)

lemma upper_digit: "is_digit c \<Longrightarrow> upper_char c = [of_char c] \<and> 48 \<le> (of_char c :: nat) \<and> (of_char c :: nat) \<le> 57"
  by (auto simp: is_digit_def upper_char_def)

lemma in_dropWhile: "x \<in> set xs \<Longrightarrow> \<not> P x \<Longrightarrow> x \<in> set (dropWhile P xs)"
  by (induction xs) auto

lemma in_strip: "c \<in> set t \<Longrightarrow> \<not> is_space c \<Longrightarrow> c \<in> set (py_strip t)"
  by (simp add: py_strip_def in_dropWhile)

lemma sentinelas_no_digit:
  "s \<in> set sentinelas \<Longrightarrow> n \<in> set s \<Longrightarrow> \<not> (48 \<le> n \<and> n \<le> 57)"
  by (auto simp: sentinelas_def codepoints_def)

lemma digit_not_sentinel:
  assumes "c \<in> set t" "is_digit c"
  shows "py_upper (py_strip t) \<notin> set sentinelas"
proof
  assume a: "py_upper (py_strip t) \<in> set sentinelas"
  from assms have "c \<in> set (py_strip t)"
    by (simp add: in_strip digit_not_space)
  then have "of_char c \<in> set (py_upper (py_strip t))"
    using upper_digit [OF assms(2)] by (auto simp: py_upper_def intro!: bexI [of _ c])
  with sentinelas_no_digit [OF a] upper_digit [OF assms(2)] show False by blast
qed

lemma upper_hem:
  "py_upper ''N'' \<noteq> codepoints ''S''" "py_upper ''S'' = codepoints ''S''"
  "py_upper ''W'' = codepoints ''W''" "py_upper ''O'' \<noteq> codepoints ''W''"
  by (simp_all add: py_upper_def upper_char_def codepoints_def)

lemma converte_grupos:
  assumes "par_gramatica p" "seg_ok (lat_seg p)" "seg_ok (lon_seg p)"
  shows "converte (grupos p) =
     Inr \<lparr>LATITUDE =
            (if lat_hem p = CHR ''S'' then - 1 else 1)
              * (of_nat (py_int (lat_graus p)) + of_nat (py_int (lat_min p)) / 60
                  + decimal (lat_seg p) / 3600),
          LONGITUDE =
            (if lon_hem p = CHR ''W'' then - 1 else 1)
              * (of_nat (py_int (lon_graus p)) + of_nat (py_int (lon_min p)) / 60
                  + decimal (lon_seg p) / 3600),
          LATITUDE_DMS = dms (lat_graus p) (lat_min p) (replace_comma (lat_seg p)) [lat_hem p],
          LONGITUDE_DMS = dms (lon_graus p) (lon_min p) (replace_comma (lon_seg p)) [lon_hem p]\<rparr>"
proof -
  from assms(1) have "lat_hem p = CHR ''N'' \<or> lat_hem p = CHR ''S''"
    and "lon_hem p = CHR ''W'' \<or> lon_hem p = CHR ''O''"
    by (simp_all add: par_gramatica_def)
  then show ?thesis
    by (auto simp: grupos_def Let_def py_float_decimal [OF assms(2)]
        py_float_decimal [OF assms(3)] upper_hem)
qed

lemma percorre_one: "converte m = Inr pt \<Longrightarrow> percorre [m] [] = Inr [pt]"
  by simp


lemma percorre_Inr:
  "percorre ms acc = Inr ps \<Longrightarrow> \<exists>qs. ps = acc @ qs \<and> map converte ms = map Inr qs"
proof (induction ms arbitrary: acc)
  case Nil
  then show ?case by simp
next
  case (Cons m ms)
  from Cons.prems obtain p where p: "converte m = Inr p"
    and r: "percorre ms (acc @ [p]) = Inr ps"
    by (auto split: sum.splits)
  from Cons.IH [OF r] obtain qs where "ps = (acc @ [p]) @ qs" "map converte ms = map Inr qs"
    by blast
  with p have "ps = acc @ (p # qs) \<and> map converte (m # ms) = map Inr (p # qs)"
    by simp
  then show ?case by blast
qed

lemma converte_dms:
  "converte [g1, m1, s1, h1, g2, m2, s2, h2] = Inr pt \<Longrightarrow>
     LATITUDE_DMS pt = dms g1 m1 (replace_comma s1) h1 \<and>
     LONGITUDE_DMS pt = dms g2 m2 (replace_comma s2) h2"
  by (auto simp: Let_def split: sum.splits)

lemma counts_le_run: "n \<in> set (counts it s) \<Longrightarrow> n \<le> length (takeWhile (cls it) s)"
  by (auto simp: counts_def Let_def split: option.splits)

lemma run_nonempty:
  assumes "1 \<le> length (takeWhile P s)"
  shows "\<exists>c\<in>set s. P c"
proof (cases s)
  case Nil
  with assms show ?thesis by simp
next
  case (Cons c cs)
  with assms have "P c" by (auto split: if_splits)
  with Cons show ?thesis by auto
qed

lemma match_needs_class:
  "match_items its s = Some (caps, r) \<Longrightarrow> it \<in> set its \<Longrightarrow> 1 \<le> lo it
     \<Longrightarrow> \<exists>c\<in>set s. cls it c"
proof (induction its arbitrary: s caps r)
  case Nil
  then show ?case by simp
next
  case (Cons it' its)
  from Cons.prems(1) obtain n where n: "n \<in> set (counts it' s)"
    and m: "(case match_items its (drop n s) of None \<Rightarrow> None
             | Some (caps, rest) \<Rightarrow> Some (if grp it' then take n s # caps else caps, rest))
            = Some (caps, r)"
    by (auto simp: match_items.simps(2) dest!: first_some_SomeD)
  from m obtain caps' where m': "match_items its (drop n s) = Some (caps', r)"
    by (auto split: option.splits)
  show ?case
  proof (cases "it = it'")
    case True
    from counts_bounds [OF n] counts_le_run [OF n] Cons.prems(3) True
    have "1 \<le> length (takeWhile (cls it) s)" by simp
    then show ?thesis by (rule run_nonempty)
  next
    case False
    with Cons.prems(2) have "it \<in> set its" by simp
    from Cons.IH [OF m' this Cons.prems(3)] obtain c where "c \<in> set (drop n s)" "cls it c"
      by blast
    then show ?thesis by (meson in_set_dropD)
  qed
qed

lemma findall_sem_classe:
  assumes "Rep P l h g \<in> set padrao" "1 \<le> l"
  shows "\<forall>c\<in>set s. \<not> P c \<Longrightarrow> findall s = []"
proof (induction s)
  case Nil
  then show ?case by (simp add: findall_Nil)
next
  case (Cons c cs)
  have "match_items padrao (c # cs) = None"
  proof (cases "match_items padrao (c # cs)")
    case None
    then show ?thesis .
  next
    case (Some x)
    then obtain caps r where "match_items padrao (c # cs) = Some (caps, r)"
      by (cases x) simp
    from match_needs_class [OF this assms(1)] assms(2) Cons.prems show ?thesis
      by simp
  qed
  then have "findall (c # cs) = findall cs"
    by (subst findall.simps) simp
  with Cons show ?case by simp
qed

section \<open>The loop of \<^verbatim>\<open>expandir_dataframe\<close>\<close>

lemma length_novas_linhas: "length (novas_linhas cols r ps) = length ps"
  by (simp add: novas_linhas_def del: upt_Suc)

lemma novas_linhas_nth:
  "novas_linhas cols r ps = map (\<lambda>i. nova_linha cols r (Suc i) (ps ! i)) [0 ..< length ps]"
proof (rule nth_equalityI)
  show "length (novas_linhas cols r ps)
      = length (map (\<lambda>i. nova_linha cols r (Suc i) (ps ! i)) [0 ..< length ps])"
    by (simp add: length_novas_linhas)
next
  fix i
  assume "i < length (novas_linhas cols r ps)"
  then have i: "i < length ps" by (simp add: length_novas_linhas)
  then have "[1 ..< Suc (length ps)] ! i = Suc i"
    by (simp del: upt_Suc)
  with i show "novas_linhas cols r ps ! i
      = map (\<lambda>i. nova_linha cols r (Suc i) (ps ! i)) [0 ..< length ps] ! i"
    by (simp add: novas_linhas_def del: upt_Suc)
qed

lemma expande_Inr:
  assumes "\<forall>r\<in>set rs. \<exists>c ps. map_of (zip cols r) coluna = Some c
             \<and> extrair_coordenadas (Some (py_str num_str c)) = Inr ps"
  shows "expande num_str cols coluna rs acc
           = Inr (acc @ concat (map (\<lambda>r. novas_linhas cols r (pontos_linha num_str cols coluna r)) rs))"
  using assms
proof (induction rs arbitrary: acc)
  case Nil
  then show ?case by simp
next
  case (Cons r rs)
  from Cons.prems obtain c ps where c: "map_of (zip cols r) coluna = Some c"
    and ps: "extrair_coordenadas (Some (py_str num_str c)) = Inr ps"
    by auto
  then have p: "pontos_linha num_str cols coluna r = ps"
    by (simp add: pontos_linha_def)
  from Cons.prems have "\<forall>r\<in>set rs. \<exists>c ps. map_of (zip cols r) coluna = Some c
             \<and> extrair_coordenadas (Some (py_str num_str c)) = Inr ps"
    by simp
  from Cons.IH [OF this] c ps p show ?case by simp
qed

lemma expande_InrD:
  "expande num_str cols coluna rs acc = Inr saida \<Longrightarrow>
     saida = acc @ concat (map (\<lambda>r. novas_linhas cols r (pontos_linha num_str cols coluna r)) rs)"
proof (induction rs arbitrary: acc)
  case Nil
  then show ?case by simp
next
  case (Cons r rs)
  from Cons.prems obtain c ps where c: "map_of (zip cols r) coluna = Some c"
    and ps: "extrair_coordenadas (Some (py_str num_str c)) = Inr ps"
    and e: "expande num_str cols coluna rs (acc @ novas_linhas cols r ps) = Inr saida"
    by (auto split: option.splits sum.splits)
  from c ps have "pontos_linha num_str cols coluna r = ps"
    by (simp add: pontos_linha_def)
  with Cons.IH [OF e] show ?case by simp
qed


lemma coluna_ausente:
  "coluna \<notin> set cols \<Longrightarrow> map_of (zip cols r) coluna = None"
  by (auto simp: map_of_eq_None_iff dest: set_zip_leftD)

lemma map_of_nova_linha:
  "map_of (nova_linha cols r i p) =
     (map_of (to_dict cols r))
       (''PONTO'' \<mapsto> CStr (''P'' @ fmt_02d i),
        ''LATITUDE'' \<mapsto> CNum (LATITUDE p),
        ''LONGITUDE'' \<mapsto> CNum (LONGITUDE p),
        ''LATITUDE_DMS'' \<mapsto> CStr (LATITUDE_DMS p),
        ''LONGITUDE_DMS'' \<mapsto> CStr (LONGITUDE_DMS p))"
  by (simp add: nova_linha_def update_conv')

lemma nova_linha_PONTO:
  "map_of (nova_linha cols r i p) ''PONTO'' = Some (CStr (''P'' @ fmt_02d i))"
  by (simp add: map_of_nova_linha)

lemma fmt_02d_dois:
  assumes "n < 100"
  shows "fmt_02d n = [''0123456789'' ! (n div 10), ''0123456789'' ! (n mod 10)]"
proof (cases "n < 10")
  case True
  then have "dec_str n = [''0123456789'' ! n]"
    by (subst dec_str.simps) simp
  with True show ?thesis by (simp add: fmt_02d_def)
next
  case False
  with assms have d: "n div 10 < 10" by simp
  then have "dec_str (n div 10) = [''0123456789'' ! (n div 10)]"
    by (subst dec_str.simps) simp
  with False have "dec_str n = [''0123456789'' ! (n div 10), ''0123456789'' ! (n mod 10)]"
    by (subst dec_str.simps) simp
  then show ?thesis by (simp add: fmt_02d_def)
qed

lemma foldl_update_map_of:
  "map_of (foldl (\<lambda>d (k, v). AList.update k v d) acc kvs) = map_of acc ++ map_of (rev kvs)"
proof (induction kvs arbitrary: acc)
  case Nil
  then show ?case by simp
next
  case (Cons kv kvs)
  obtain k v where kv: "kv = (k, v)" by (cases kv)
  have "map_of (AList.update k v acc) ++ map_of (rev kvs)
      = map_of acc ++ (map_of [(k, v)] ++ map_of (rev kvs))"
    by (simp add: update_conv' fun_eq_iff map_add_def split: option.splits)
  with Cons.IH [of "AList.update k v acc"] kv show ?case by simp
qed

lemma map_of_rev_distinct:
  "distinct (map fst kvs) \<Longrightarrow> map_of (rev kvs) = map_of kvs"
proof (induction kvs)
  case Nil
  then show ?case by simp
next
  case (Cons kv kvs)
  obtain k v where kv: "kv = (k, v)" by (cases kv)
  with Cons.prems have "map_of kvs k = None"
    by (simp add: map_of_eq_None_iff)
  with Cons kv show ?case
    by (auto simp: fun_eq_iff map_add_def split: option.splits)
qed

lemma to_dict_map_of:
  assumes "distinct cols"
  shows "map_of (to_dict cols r) = map_of (zip cols r)"
proof -
  have "map fst (zip cols r) = take (min (length cols) (length r)) cols"
    by (rule map_fst_zip_take)
  with assms have "distinct (map fst (zip cols r))" by simp
  from map_of_rev_distinct [OF this] show ?thesis
    by (simp add: to_dict_def foldl_update_map_of)
qed

lemma nova_linha_campos:
  assumes "distinct cols" "k \<notin> set reservadas"
  shows "map_of (nova_linha cols r i p) k = map_of (zip cols r) k"
  using assms(2) by (simp add: map_of_nova_linha to_dict_map_of [OF assms(1)] reservadas_def)

lemma nova_linha_dom:
  assumes "distinct cols"
  shows "dom (map_of (nova_linha cols r i p)) = dom (map_of (zip cols r)) \<union> set reservadas"
  by (auto simp: map_of_nova_linha to_dict_map_of [OF assms] reservadas_def)

section \<open>The example pair\<close>

lemma exemplo_gramatica: "par_gramatica exemplo"
  by (simp add: exemplo_def par_gramatica_def digitos_def is_digit_def is_ordinal_def
      ordm_def deg_def is_seg_def is_sep_def is_space_def)

lemma exemplo_seg: "seg_ok (lat_seg exemplo)" "seg_ok (lon_seg exemplo)"
  by (simp_all add: exemplo_def seg_ok_def is_seg_def is_digit_def)

lemma exemplo_texto:
  "texto_par exemplo = ''3'' @ [CHR 0xBA] @ ''03'' @ [CHR 0x27] @ ''52,9838'' @ [CHR 0x22]
      @ ''S 59'' @ [CHR 0xB0] @ ''54'' @ [CHR 0x27] @ ''46,6013'' @ [CHR 0x22] @ ''W''"
  by (simp add: exemplo_def texto_par_def)

lemma exemplo_valores:
  "decimal (lat_seg exemplo) = 264919 / 5000" "decimal (lon_seg exemplo) = 466013 / 10000"
  "py_int (lat_graus exemplo) = 3" "py_int (lat_min exemplo) = 3"
  "py_int (lon_graus exemplo) = 59" "py_int (lon_min exemplo) = 54"
  by (simp_all add: exemplo_def decimal_def is_digit_def py_int_def digit_val_def)

lemma exemplo_findall: "findall texto_exemplo = [grupos exemplo]"
proof -
  have "list_all (\<lambda>c. \<not> is_digit c) []" by simp
  from findall_par [OF exemplo_gramatica this, of "[]"] show ?thesis
    unfolding append_Nil append_Nil2 exemplo_texto texto_exemplo_def findall_Nil .
qed

lemma exemplo_converte: "converte (grupos exemplo) = Inr ponto_exemplo"
  unfolding converte_grupos [OF exemplo_gramatica exemplo_seg] exemplo_valores
  by (simp add: exemplo_def dms_def replace_comma_def ordm_def ponto_exemplo_def)

lemma texto_exemplo_nao_sentinela: "py_upper (py_strip texto_exemplo) \<notin> set sentinelas"
  by (rule digit_not_sentinel [of "CHR ''3''"]) (simp_all add: texto_exemplo_def is_digit_def)

lemma exemplo_extrair: "extrair_coordenadas (Some texto_exemplo) = Inr [ponto_exemplo]"
  using texto_exemplo_nao_sentinela
  by (simp add: extrair_coordenadas_def exemplo_findall exemplo_converte)

lemma findall_um_par:
  assumes "par_gramatica p"
  shows "findall (texto_par p) = [grupos p]"
proof -
  have "list_all (\<lambda>c. \<not> is_digit c) []" by simp
  from findall_par [OF assms this, of "[]"] show ?thesis
    by (simp add: findall_Nil)
qed

lemma tres_partes_findall: "findall texto_tres_partes = [grupos par_tres_partes]"
proof -
  have g: "par_gramatica par_tres_partes"
    by (simp add: par_tres_partes_def par_gramatica_def digitos_def is_digit_def is_ordinal_def
        ordm_def deg_def is_seg_def is_sep_def is_space_def)
  have "texto_par par_tres_partes = texto_tres_partes"
    by (simp add: par_tres_partes_def texto_par_def texto_tres_partes_def)
  with findall_um_par [OF g] show ?thesis by simp
qed

lemma tres_partes_float: "py_float (replace_comma ''1.2.3'') = Inl ValueError"
  by (simp add: py_float_def replace_comma_def is_digit_def Let_def)

section \<open>The example tables\<close>

lemma texto_exemplo_par: "texto_par exemplo = texto_exemplo"
  by (simp add: exemplo_texto texto_exemplo_def)

lemma dois_findall: "findall texto_dois = [grupos exemplo, grupos exemplo]"
proof -
  have a: "list_all (\<lambda>c. \<not> is_digit c) []" by simp
  have b: "list_all (\<lambda>c. \<not> is_digit c) ''; ''" by (simp add: is_digit_def)
  have "findall (''; '' @ texto_par exemplo @ []) = [grupos exemplo]"
    unfolding findall_par [OF exemplo_gramatica b] findall_Nil ..
  with findall_par [OF exemplo_gramatica a, of "''; '' @ texto_par exemplo"]
  show ?thesis
    by (simp add: texto_exemplo_par texto_dois_def)
qed

lemma dois_extrair:
  "extrair_coordenadas (Some texto_dois) = Inr [ponto_exemplo, ponto_exemplo]"
proof -
  have "py_upper (py_strip texto_dois) \<notin> set sentinelas"
    by (rule digit_not_sentinel [of "CHR ''3''"])
      (simp_all add: texto_dois_def texto_exemplo_def is_digit_def)
  then show ?thesis
    by (simp add: extrair_coordenadas_def dois_findall exemplo_converte)
qed

lemma nan_extrair: "extrair_coordenadas (Some ''nan'') = Inr []"
proof -
  have "findall (''nan'' @ []) = findall []"
    by (rule findall_prefix) (simp add: is_digit_def)
  then have "findall ''nan'' = []" by (simp add: findall_Nil)
  moreover have "py_upper (py_strip ''nan'') \<notin> set sentinelas"
    by (simp add: py_strip_def py_upper_def upper_char_def is_space_def sentinelas_def
        codepoints_def)
  ultimately show ?thesis by (simp add: extrair_coordenadas_def)
qed

lemma quadro_exemplo_pontos:
  "pontos_linha num_str_exemplo [''id'', ''coord''] ''coord''
      [CNum 1, CStr texto_dois] = [ponto_exemplo, ponto_exemplo]"
  "pontos_linha num_str_exemplo [''id'', ''coord''] ''coord'' [CNum 2, CNaN] = []"
  "pontos_linha num_str_exemplo [''id'', ''coord''] ''coord'' [CNum 3, CStr texto_exemplo]
      = [ponto_exemplo]"
  by (simp_all add: pontos_linha_def dois_extrair nan_extrair exemplo_extrair)

lemma quadro_exemplo_ok:
  "\<forall>r\<in>set (linhas quadro_exemplo). \<exists>c ps. map_of (zip (columns quadro_exemplo) r) ''coord'' = Some c
      \<and> extrair_coordenadas (Some (py_str num_str_exemplo c)) = Inr ps"
  by (simp add: quadro_exemplo_def dois_extrair nan_extrair exemplo_extrair)

lemma quadro_exemplo_extrai:
  "expandir_dataframe num_str_exemplo quadro_exemplo ''coord''
     = Inr [nova_linha [''id'', ''coord''] [CNum 1, CStr texto_dois] 1 ponto_exemplo,
            nova_linha [''id'', ''coord''] [CNum 1, CStr texto_dois] 2 ponto_exemplo,
            nova_linha [''id'', ''coord''] [CNum 3, CStr texto_exemplo] 1 ponto_exemplo]"
  using expande_Inr [OF quadro_exemplo_ok, of "[]"]
  by (simp add: expandir_dataframe_def quadro_exemplo_def quadro_exemplo_pontos
      novas_linhas_nth numeral_2_eq_2)

lemma quadro_ponto_extrai:
  "expandir_dataframe num_str_exemplo quadro_ponto ''coord''
     = Inr [nova_linha [''PONTO'', ''coord''] [CStr ''A1'', CStr texto_exemplo] 1 ponto_exemplo]"
proof -
  have "\<forall>r\<in>set (linhas quadro_ponto). \<exists>c ps.
      map_of (zip (columns quadro_ponto) r) ''coord'' = Some c
      \<and> extrair_coordenadas (Some (py_str num_str_exemplo c)) = Inr ps"
    by (simp add: quadro_ponto_def exemplo_extrair)
  from expande_Inr [OF this, of "[]"] show ?thesis
    by (simp add: expandir_dataframe_def quadro_ponto_def pontos_linha_def exemplo_extrair
        novas_linhas_nth)
qed

section \<open>Properties of \<^verbatim>\<open>extrair_coordenadas\<close>\<close>



text \<open>
  C7: for every match, the DMS texts of the point are rebuilt from the captured tokens:
  degrees, the sign U+00BA (whichever degree sign the text had), minutes, an apostrophe, the
  seconds with every comma replaced by a dot, a double quote, and the hemisphere letter as
  captured.
\<close>

theorem dms_reconstruido:
  assumes "extrair_coordenadas (Some t) = Inr ps" and "i < length ps"
    and "findall t ! i = [g_lat, m_lat, s_lat, h_lat, g_lon, m_lon, s_lon, h_lon]"
  shows "LATITUDE_DMS (ps ! i)
           = g_lat @ [CHR 0xBA] @ m_lat @ [CHR 0x27] @ replace_comma s_lat @ [CHR 0x22] @ h_lat
       \<and> LONGITUDE_DMS (ps ! i)
           = g_lon @ [CHR 0xBA] @ m_lon @ [CHR 0x27] @ replace_comma s_lon @ [CHR 0x22] @ h_lon"
proof -
  from assms(1,2) have "percorre (findall t) [] = Inr ps"
    by (auto simp: extrair_coordenadas_def split: if_splits)
  from percorre_Inr [OF this] have m: "map converte (findall t) = map Inr ps"
    by simp
  then have "length (findall t) = length ps"
    by (metis length_map)
  with assms(2) m have "converte (findall t ! i) = Inr (ps ! i)"
    by (metis nth_map)
  with assms(3) show ?thesis
    using converte_dms by (simp add: dms_def ordm_def)
qed

theorem dms_reconstruido_witness:
  "extrair_coordenadas (Some texto_exemplo) = Inr [ponto_exemplo]
   \<and> findall texto_exemplo ! 0
       = [''3'', ''03'', ''52,9838'', ''S'', ''59'', ''54'', ''46,6013'', ''W'']
   \<and> LATITUDE_DMS ([ponto_exemplo] ! 0)
       = ''3'' @ [CHR 0xBA] @ ''03'' @ [CHR 0x27] @ ''52.9838'' @ [CHR 0x22] @ ''S''
   \<and> LONGITUDE_DMS ([ponto_exemplo] ! 0)
       = ''59'' @ [CHR 0xBA] @ ''54'' @ [CHR 0x27] @ ''46.6013'' @ [CHR 0x22] @ ''W''"
proof -
  have f: "findall texto_exemplo ! 0
       = [''3'', ''03'', ''52,9838'', ''S'', ''59'', ''54'', ''46,6013'', ''W'']"
    by (simp add: exemplo_findall grupos_def exemplo_def)
  have l: "0 < length [ponto_exemplo]" by simp
  from dms_reconstruido [OF exemplo_extrair l f] exemplo_extrair f show ?thesis
    by (simp add: replace_comma_def)
qed

text \<open>
  C5: the pattern has the classes \<^verbatim>\<open>[NS]\<close> and \<^verbatim>\<open>[WO]\<close> and is compiled without
  \<^verbatim>\<open>re.IGNORECASE\<close>; the example pair with its hemisphere letters in lower case is not
  recognised, although \<^verbatim>\<open>hem_lat.upper()\<close> and \<^verbatim>\<open>hem_lon.upper()\<close> prepare for them.
\<close>

theorem minusculas_nao_reconhecidas:
  "extrair_coordenadas (Some texto_minusculas) = Inr []"
proof -
  have "Rep (\<lambda>c. c \<in> set ''NS'') 1 (Some 1) True \<in> set padrao"
    by (simp add: padrao_def)
  moreover have "\<forall>c\<in>set texto_minusculas. \<not> c \<in> set ''NS''"
    by (simp add: texto_minusculas_def)
  ultimately have "findall texto_minusculas = []"
    using findall_sem_classe [of "\<lambda>c. c \<in> set ''NS''" 1 "Some 1" True texto_minusculas]
    by simp
  then show ?thesis
    by (simp add: extrair_coordenadas_def)
qed

text \<open>
  C3: the class \<^verbatim>\<open>[\d,\.]+\<close> of the seconds admits more than one separator, and
  \<^verbatim>\<open>float\<close> then raises ValueError, which \<^verbatim>\<open>extrair_coordenadas\<close> does not catch.
\<close>

theorem segundos_malformados_levantam:
  "extrair_coordenadas (Some texto_tres_partes) = Inl ValueError"
proof -
  have "py_upper (py_strip texto_tres_partes) \<notin> set sentinelas"
    by (rule digit_not_sentinel [of "CHR ''1''"])
      (simp_all add: texto_tres_partes_def is_digit_def)
  moreover have "converte (grupos par_tres_partes) = Inl ValueError"
    by (simp add: grupos_def par_tres_partes_def tres_partes_float)
  ultimately show ?thesis
    by (simp add: extrair_coordenadas_def tres_partes_findall)
qed

text \<open>
  C4: the pattern accepts O (Oeste, west) as the hemisphere of the longitude, but only W
  negates it; the example pair written with O gets a positive longitude.
\<close>

theorem oeste_O_nao_negativo:
  "extrair_coordenadas (Some texto_oeste) =
     Inr [\<lparr>LATITUDE = - (55164919 / 18000000), LONGITUDE = 2156866013 / 36000000,
           LATITUDE_DMS = ''3'' @ [CHR 0xBA] @ ''03'' @ [CHR 0x27] @ ''52.9838'' @ [CHR 0x22] @ ''S'',
           LONGITUDE_DMS = ''59'' @ [CHR 0xBA] @ ''54'' @ [CHR 0x27] @ ''46.6013'' @ [CHR 0x22] @ ''O''\<rparr>]"
proof -
  let ?p = "exemplo\<lparr>lon_hem := CHR ''O''\<rparr>"
  have g: "par_gramatica ?p"
    using exemplo_gramatica by (simp add: par_gramatica_def)
  have s: "seg_ok (lat_seg ?p)" "seg_ok (lon_seg ?p)"
    using exemplo_seg by simp_all
  have t: "texto_par ?p = texto_oeste"
    by (simp add: exemplo_def texto_par_def texto_oeste_def)
  have n: "py_upper (py_strip texto_oeste) \<notin> set sentinelas"
    by (rule digit_not_sentinel [of "CHR ''3''"]) (simp_all add: texto_oeste_def is_digit_def)
  have v: "decimal (lat_seg ?p) = 264919 / 5000" "decimal (lon_seg ?p) = 466013 / 10000"
    "py_int (lat_graus ?p) = 3" "py_int (lat_min ?p) = 3"
    "py_int (lon_graus ?p) = 59" "py_int (lon_min ?p) = 54"
    using exemplo_valores by simp_all
  have "converte (grupos ?p) =
     Inr \<lparr>LATITUDE = - (55164919 / 18000000), LONGITUDE = 2156866013 / 36000000,
           LATITUDE_DMS = ''3'' @ [CHR 0xBA] @ ''03'' @ [CHR 0x27] @ ''52.9838'' @ [CHR 0x22] @ ''S'',
           LONGITUDE_DMS = ''59'' @ [CHR 0xBA] @ ''54'' @ [CHR 0x27] @ ''46.6013'' @ [CHR 0x22] @ ''O''\<rparr>"
    unfolding converte_grupos [OF g s] v
    by (simp add: exemplo_def dms_def replace_comma_def ordm_def)
  with n findall_um_par [OF g] show ?thesis
    by (simp add: extrair_coordenadas_def t)
qed

section \<open>Properties of \<^verbatim>\<open>expandir_dataframe\<close>\<close>



text \<open>
  C6, as amended: for a column name that is not a column of the table, a table with at
  least one row raises KeyError at its first row, before any row is produced; a table with
  no rows raises nothing and yields the empty result.
\<close>

theorem coluna_desconhecida:
  assumes "coluna \<notin> set (columns df)"
  shows "expandir_dataframe num_str df coluna
           = (if linhas df = [] then Inr [] else Inl KeyError)"
proof (cases "linhas df")
  case Nil
  then show ?thesis by (simp add: expandir_dataframe_def)
next
  case (Cons r rs)
  with coluna_ausente [OF assms, of r] show ?thesis
    by (simp add: expandir_dataframe_def)
qed

theorem coluna_desconhecida_witness:
  "''x'' \<notin> set (columns quadro_exemplo)
   \<and> expandir_dataframe num_str_exemplo quadro_exemplo ''x'' = Inl KeyError"
proof -
  have h: "''x'' \<notin> set (columns quadro_exemplo)" by (simp add: quadro_exemplo_def)
  from coluna_desconhecida [OF h, of num_str_exemplo] h show ?thesis
    by (simp add: quadro_exemplo_def)
qed

theorem coluna_desconhecida_counterexample:
  "''x'' \<notin> set (columns quadro_vazio)
   \<and> expandir_dataframe num_str_exemplo quadro_vazio ''x'' = Inr []
   \<and> expandir_dataframe num_str_exemplo quadro_vazio ''x'' \<noteq> Inl KeyError"
  by (simp add: quadro_vazio_def expandir_dataframe_def)

text \<open>
  C8: the labels of the rows that \<open>expandir_dataframe\<close> returns are, source row by source
  row, P followed by the number of the point in the row, counted from 1 and written with
  \<^verbatim>\<open>{i:02d}\<close>: for a number below 100 exactly two digits, tens then units.
\<close>

theorem rotulos_por_linha:
  assumes "expandir_dataframe num_str df coluna = Inr saida"
  shows "map (\<lambda>d. map_of d ''PONTO'') saida
       = concat (map (\<lambda>r. map (\<lambda>i. Some (CStr (''P'' @ fmt_02d (Suc i))))
                              [0 ..< length (pontos_linha num_str (columns df) coluna r)])
                     (linhas df))
     \<and> (\<forall>n<100. fmt_02d n = [''0123456789'' ! (n div 10), ''0123456789'' ! (n mod 10)])"
proof -
  from assms have "saida = concat (map (\<lambda>r. novas_linhas (columns df) r
      (pontos_linha num_str (columns df) coluna r)) (linhas df))"
    using expande_InrD [of num_str "columns df" coluna "linhas df" "[]" saida]
    by (simp add: expandir_dataframe_def)
  then have "map (\<lambda>d. map_of d ''PONTO'') saida
       = concat (map (\<lambda>r. map (\<lambda>i. Some (CStr (''P'' @ fmt_02d (Suc i))))
                              [0 ..< length (pontos_linha num_str (columns df) coluna r)])
                     (linhas df))"
    by (simp add: map_concat novas_linhas_nth nova_linha_PONTO comp_def)
  with fmt_02d_dois show ?thesis by blast
qed

theorem rotulos_por_linha_witness:
  "expandir_dataframe num_str_exemplo quadro_exemplo ''coord''
     = Inr [nova_linha [''id'', ''coord''] [CNum 1, CStr texto_dois] 1 ponto_exemplo,
            nova_linha [''id'', ''coord''] [CNum 1, CStr texto_dois] 2 ponto_exemplo,
            nova_linha [''id'', ''coord''] [CNum 3, CStr texto_exemplo] 1 ponto_exemplo]
   \<and> map (\<lambda>d. map_of d ''PONTO'')
     [nova_linha [''id'', ''coord''] [CNum 1, CStr texto_dois] 1 ponto_exemplo,
      nova_linha [''id'', ''coord''] [CNum 1, CStr texto_dois] 2 ponto_exemplo,
      nova_linha [''id'', ''coord''] [CNum 3, CStr texto_exemplo] 1 ponto_exemplo]
   = [Some (CStr ''P01''), Some (CStr ''P02''), Some (CStr ''P01'')]
   \<and> fmt_02d 42 = ''42''"
proof -
  have "(42::nat) < 100" by simp
  with rotulos_por_linha [OF quadro_exemplo_extrai]
  have a: "map (\<lambda>d. map_of d ''PONTO'')
     [nova_linha [''id'', ''coord''] [CNum 1, CStr texto_dois] 1 ponto_exemplo,
      nova_linha [''id'', ''coord''] [CNum 1, CStr texto_dois] 2 ponto_exemplo,
      nova_linha [''id'', ''coord''] [CNum 3, CStr texto_exemplo] 1 ponto_exemplo]
     = concat (map (\<lambda>r. map (\<lambda>i. Some (CStr (''P'' @ fmt_02d (Suc i))))
                 [0 ..< length (pontos_linha num_str_exemplo (columns quadro_exemplo) ''coord'' r)])
              (linhas quadro_exemplo))"
    and b: "fmt_02d 42 = [''0123456789'' ! (42 div 10), ''0123456789'' ! (42 mod 10)]"
    by blast+
  have c: "fmt_02d (Suc 0) = ''01''" "fmt_02d (Suc (Suc 0)) = ''02''"
    using fmt_02d_dois [of "Suc 0"] fmt_02d_dois [of "Suc (Suc 0)"] by simp_all
  from a b quadro_exemplo_extrai show ?thesis
    by (simp add: quadro_exemplo_def quadro_exemplo_pontos numeral_2_eq_2 c)
qed

text \<open>
  C10, as amended: the rows that \<open>expandir_dataframe\<close> returns fall into one block per
  source row, in order; every row of a block has each field of its source row whose name is
  not PONTO, LATITUDE, LONGITUDE, LATITUDE_DMS or LONGITUDE_DMS with the value of the
  source row, and its fields are those of the source row and these five. The column labels
  of the table are distinct.
\<close>

theorem campos_copiados:
  assumes "expandir_dataframe num_str df coluna = Inr saida" and "distinct (columns df)"
  shows "\<exists>blocos. saida = concat blocos \<and> length blocos = length (linhas df)
     \<and> (\<forall>j<length (linhas df). \<forall>d\<in>set (blocos ! j).
          (\<forall>k. k \<notin> set reservadas \<longrightarrow>
             map_of d k = map_of (zip (columns df) (linhas df ! j)) k)
          \<and> dom (map_of d) = dom (map_of (zip (columns df) (linhas df ! j))) \<union> set reservadas)"
proof -
  let ?b = "map (\<lambda>r. novas_linhas (columns df) r
      (pontos_linha num_str (columns df) coluna r)) (linhas df)"
  from assms(1) have s: "saida = concat ?b"
    using expande_InrD [of num_str "columns df" coluna "linhas df" "[]" saida]
    by (simp add: expandir_dataframe_def)
  have "\<forall>j<length (linhas df). \<forall>d\<in>set (?b ! j).
          (\<forall>k. k \<notin> set reservadas \<longrightarrow>
             map_of d k = map_of (zip (columns df) (linhas df ! j)) k)
          \<and> dom (map_of d) = dom (map_of (zip (columns df) (linhas df ! j))) \<union> set reservadas"
    using nova_linha_campos [OF assms(2)] nova_linha_dom [OF assms(2)]
    by (auto simp: novas_linhas_nth)
  with s show ?thesis
    by (intro exI [of _ ?b]) simp
qed

theorem campos_copiados_counterexample:
  "expandir_dataframe num_str_exemplo quadro_ponto ''coord''
     = Inr [nova_linha [''PONTO'', ''coord''] [CStr ''A1'', CStr texto_exemplo] 1 ponto_exemplo]
   \<and> map_of (zip (columns quadro_ponto) [CStr ''A1'', CStr texto_exemplo]) ''PONTO''
       = Some (CStr ''A1'')
   \<and> map_of (nova_linha [''PONTO'', ''coord''] [CStr ''A1'', CStr texto_exemplo] 1 ponto_exemplo)
       ''PONTO'' = Some (CStr ''P01'')"
proof -
  have "fmt_02d 1 = ''01''"
    using fmt_02d_dois [of 1] by simp
  then show ?thesis
    by (simp add: quadro_ponto_extrai nova_linha_PONTO) (simp add: quadro_ponto_def)
qed

theorem campos_copiados_witness:
  "expandir_dataframe num_str_exemplo quadro_exemplo ''coord''
     = Inr [nova_linha [''id'', ''coord''] [CNum 1, CStr texto_dois] 1 ponto_exemplo,
            nova_linha [''id'', ''coord''] [CNum 1, CStr texto_dois] 2 ponto_exemplo,
            nova_linha [''id'', ''coord''] [CNum 3, CStr texto_exemplo] 1 ponto_exemplo]
   \<and> distinct (columns quadro_exemplo)
   \<and> (\<exists>blocos.
        [nova_linha [''id'', ''coord''] [CNum 1, CStr texto_dois] 1 ponto_exemplo,
         nova_linha [''id'', ''coord''] [CNum 1, CStr texto_dois] 2 ponto_exemplo,
         nova_linha [''id'', ''coord''] [CNum 3, CStr texto_exemplo] 1 ponto_exemplo]
          = concat blocos
        \<and> length blocos = 3
        \<and> (\<forall>d\<in>set (blocos ! 0). map_of d ''id'' = Some (CNum 1))
        \<and> (\<forall>d\<in>set (blocos ! 2). map_of d ''id'' = Some (CNum 3)))"
proof -
  have d: "distinct (columns quadro_exemplo)" by (simp add: quadro_exemplo_def)
  have r: "''id'' \<notin> set reservadas" by (simp add: reservadas_def)
  from campos_copiados [OF quadro_exemplo_extrai d] obtain blocos where
    b: "[nova_linha [''id'', ''coord''] [CNum 1, CStr texto_dois] 1 ponto_exemplo,
         nova_linha [''id'', ''coord''] [CNum 1, CStr texto_dois] 2 ponto_exemplo,
         nova_linha [''id'', ''coord''] [CNum 3, CStr texto_exemplo] 1 ponto_exemplo]
          = concat blocos"
    and l: "length blocos = length (linhas quadro_exemplo)"
    and c: "\<forall>j<length (linhas quadro_exemplo). \<forall>d\<in>set (blocos ! j).
          (\<forall>k. k \<notin> set reservadas \<longrightarrow>
             map_of d k = map_of (zip (columns quadro_exemplo) (linhas quadro_exemplo ! j)) k)"
    by blast
  have n: "0 < length (linhas quadro_exemplo)" "2 < length (linhas quadro_exemplo)"
    by (simp_all add: quadro_exemplo_def)
  from c r n(1) have "\<forall>d\<in>set (blocos ! 0).
      map_of d ''id'' = map_of (zip (columns quadro_exemplo) (linhas quadro_exemplo ! 0)) ''id''"
    by blast
  then have c0: "\<forall>d\<in>set (blocos ! 0). map_of d ''id'' = Some (CNum 1)"
    by (simp add: quadro_exemplo_def)
  from c r n(2) have "\<forall>d\<in>set (blocos ! 2).
      map_of d ''id'' = map_of (zip (columns quadro_exemplo) (linhas quadro_exemplo ! 2)) ''id''"
    by blast
  then have c2: "\<forall>d\<in>set (blocos ! 2). map_of d ''id'' = Some (CNum 3)"
    by (simp add: quadro_exemplo_def)
  from c0 c2 b l d quadro_exemplo_extrai show ?thesis
    by (intro conjI exI [of _ blocos]) (simp_all add: quadro_exemplo_def)
qed

text \<open>
  C9: if the input is absent (None or NaN), or after trimming and upper-casing equals one of
  the four sentinel strings, \<open>extrair_coordenadas\<close> returns the empty list.
\<close>

theorem sentinela_devolve_vazio:
  assumes "texto = None \<or>
    (\<exists>t. texto = Some t \<and>
       py_upper (py_strip t) \<in>
         {codepoints (''N'' @ [CHR 0xC3] @ ''O CONSTA''), codepoints ''NAO CONSTA'',
          codepoints ''NOT INFORMED'', codepoints []})"
  shows "extrair_coordenadas texto = Inr []"
  using assms by (auto simp: extrair_coordenadas_def sentinelas_def)

theorem sentinela_devolve_vazio_witness:
  "py_upper (py_strip (''  n'' @ [CHR 0xE3] @ ''o Consta '' @ [CHR 0x0A]))
     = codepoints (''N'' @ [CHR 0xC3] @ ''O CONSTA'')
   \<and> extrair_coordenadas (Some (''  n'' @ [CHR 0xE3] @ ''o Consta '' @ [CHR 0x0A])) = Inr []"
proof -
  have h: "py_upper (py_strip (''  n'' @ [CHR 0xE3] @ ''o Consta '' @ [CHR 0x0A]))
     = codepoints (''N'' @ [CHR 0xC3] @ ''O CONSTA'')"
    by (simp add: py_strip_def py_upper_def upper_char_def is_space_def codepoints_def)
  show ?thesis
    using h sentinela_devolve_vazio [of "Some (''  n'' @ [CHR 0xE3] @ ''o Consta '' @ [CHR 0x0A])"]
    by simp
qed

end
